theory Spec2Isabelle
  imports Main "HOL-Library.Sublist"
begin

text \<open>
  A model of \<^verbatim>\<open>ion_processing.py\<close>: the format detector \<^verbatim>\<open>detect_file_type\<close>, the loader
  \<^verbatim>\<open>load_data_from_url\<close> and the helper \<^verbatim>\<open>lat_long_to_point\<close>. Paths and URLs are ASCII
  strings; the network, the archive, the file system and the parsing libraries are
  parameters.
\<close>

section \<open>The format detector\<close>

text \<open>\<^verbatim>\<open>str.lower\<close> on ASCII.\<close>

definition lower_char :: "char \<Rightarrow> char" where
  "lower_char c =
     (case map_of (zip ''ABCDEFGHIJKLMNOPQRSTUVWXYZ'' ''abcdefghijklmnopqrstuvwxyz'') c of
        Some l \<Rightarrow> l
      | None \<Rightarrow> c)"

definition lower :: "string \<Rightarrow> string" where
  "lower s = map lower_char s"

text \<open>\<^verbatim>\<open>str.rfind\<close> of one character: the highest index, or \<open>-1\<close>.\<close>

fun rfind :: "char \<Rightarrow> string \<Rightarrow> int" where
  "rfind c [] = - 1"
| "rfind c (x # xs) =
     (let r = rfind c xs in
      if 0 \<le> r then r + 1 else if x = c then 0 else - 1)"

text \<open>
  \<^verbatim>\<open>os.path.splitext\<close> (POSIX): the loop of \<^verbatim>\<open>genericpath._splitext\<close> that skips the leading
  dots of the last component; it is \<open>True\<close> when the loop reaches its \<^verbatim>\<open>return\<close>.
\<close>

function skip_leading_dots :: "string \<Rightarrow> nat \<Rightarrow> nat \<Rightarrow> bool" where
  "skip_leading_dots p filenameIndex dotIndex =
     (if filenameIndex < dotIndex
      then (if take 1 (drop filenameIndex p) \<noteq> ''.'' then True
            else skip_leading_dots p (filenameIndex + 1) dotIndex)
      else False)"
  by pat_completeness auto
termination
  by (relation "measure (\<lambda>(p, i, d). d - i)") auto

declare skip_leading_dots.simps [simp del]

definition splitext :: "string \<Rightarrow> string \<times> string" where
  "splitext p =
     (let sepIndex = rfind CHR ''/'' p;
          dotIndex = rfind CHR ''.'' p
      in if dotIndex > sepIndex \<and> skip_leading_dots p (nat (sepIndex + 1)) (nat dotIndex)
         then (take (nat dotIndex) p, drop (nat dotIndex) p)
         else (p, []))"

text \<open>Lines 30 to 38.\<close>

definition detect_file_type :: "string \<Rightarrow> string" where
  "detect_file_type path =
     (let ext = snd (splitext (lower path)) in
      if ext \<in> set [''.csv''] then ''csv''
      else if ext \<in> set [''.txt''] then ''txt''
      else if ext \<in> set [''.xls''] then ''xls''
      else if ext \<in> set [''.xlsx''] then ''xlsx''
      else if ext \<in> set [''.shp'', ''.geojson'', ''.gpkg'', ''.json'', ''.kml''] then ''vector''
      else if ext \<in> set [''.tif'', ''.tiff''] then ''raster''
      else ''unknown'')"

section \<open>Values, errors and loaded structures\<close>

type_synonym bytes = string

datatype pyval = PyStr string | PyNone | PyObj string

type_synonym kwargs = "(string \<times> pyval) list"

record response =
  status_code :: int
  content :: bytes
  resp_url :: string

datatype py_error =
    HTTPError response
  | ValueError string
  | NotImplementedError string
  | NameError string
  | UnboundLocalError string
  | TypeError string
  | KeyError string
  | OtherError string

text \<open>
  What a parser reads from: the in-memory buffer \<^verbatim>\<open>io.BytesIO(response.content)\<close>, the open
  archive member \<^verbatim>\<open>zip_file.open(filepath)\<close> (archive bytes and member name), or a path on disk.
\<close>

datatype source = Buffer bytes | Member bytes string | Path string

record 'a dataframe =
  columns :: "(string \<times> 'a list) list"

datatype 'a point = Point 'a 'a

record 'a geodataframe =
  table :: "'a dataframe"
  geometry :: "'a point list"
  crs :: pyval

datatype ('a, 'r) data =
    DataFrame "'a dataframe"
  | GeoDataFrame "'a geodataframe"
  | DatasetReader 'r

section \<open>The external collaborators\<close>

text \<open>
  The libraries the module calls are parameters of the model: a \<open>world\<close> gives the outcome of
  every call (\<open>Inl\<close> or \<open>Some\<close> an exception). The file system \<open>'fs\<close> is opaque; only
  \<^verbatim>\<open>extractall\<close> and \<^verbatim>\<open>rmtree\<close> change it, the readers observe it.
\<close>

record ('fs, 'a, 'r) world =
  requests_get :: "string \<Rightarrow> py_error + response"
  zipfile_ZipFile :: "bytes \<Rightarrow> py_error option"
  zip_open :: "bytes \<Rightarrow> string \<Rightarrow> py_error option"
  zip_extractall :: "bytes \<Rightarrow> string \<Rightarrow> 'fs \<Rightarrow> py_error option \<times> 'fs"
  os_path_abspath :: "string \<Rightarrow> string"
  pd_read_csv :: "'fs \<Rightarrow> source \<Rightarrow> kwargs \<Rightarrow> py_error + 'a dataframe"
  pd_read_excel :: "'fs \<Rightarrow> string \<Rightarrow> source \<Rightarrow> kwargs \<Rightarrow> py_error + 'a dataframe"
  gpd_read_file :: "'fs \<Rightarrow> source \<Rightarrow> kwargs \<Rightarrow> py_error + 'a geodataframe"
  gdf_to_crs :: "'a geodataframe \<Rightarrow> pyval \<Rightarrow> py_error + 'a geodataframe"
  rasterio_open :: "'fs \<Rightarrow> source \<Rightarrow> kwargs \<Rightarrow> py_error + 'r"
  shapely_Point :: "'a \<Rightarrow> 'a \<Rightarrow> py_error + 'a point"
  gpd_GeoDataFrame :: "'a dataframe \<Rightarrow> 'a point list \<Rightarrow> pyval \<Rightarrow> py_error + 'a geodataframe"
  shutil_rmtree :: "string \<Rightarrow> 'fs \<Rightarrow> py_error option \<times> 'fs"
  os_path_exists :: "'fs \<Rightarrow> string \<Rightarrow> bool"

text \<open>Every call into a library is recorded, in the order the module makes them.\<close>

datatype event =
    EvGet string
  | EvZipFile
  | EvZipOpen string
  | EvReadCsv source
  | EvReadExcel string source
  | EvReadFile source
  | EvToCrs pyval
  | EvRasterioOpen source
  | EvExtractAll string
  | EvRmtree string

record 'fs state =
  fs :: 'fs
  trace :: "event list"

definition init :: "'fs \<Rightarrow> 'fs state" where
  "init f = \<lparr>fs = f, trace = []\<rparr>"

definition log :: "event \<Rightarrow> 'fs state \<Rightarrow> 'fs state" where
  "log e \<sigma> = \<sigma>\<lparr>trace := trace \<sigma> @ [e]\<rparr>"


section \<open>The module's global names\<close>

text \<open>
  The names \<^verbatim>\<open>ion_processing.py\<close> binds at module level (imports, the two functions, the
  script's variables). A function body that reads a name it does not assign looks it up
  here at call time; the builtins hold no \<^verbatim>\<open>saws_crs\<close> either.
\<close>

definition module_bound_names :: "string list" where
  "module_bound_names =
     [''pd'', ''gpd'', ''rasterio'', ''requests'', ''zipfile'', ''io'', ''os'', ''shutil'', ''Point'',
      ''load_data_from_url'', ''lat_long_to_point'', ''data_url'', ''data'', ''filtered_data'',
      ''num_rows_total'', ''num_rows_filtered'', ''num_rows_excluded'',
      ''num_rows_filtered2'', ''num_rows_excluded2'']"

definition module_namespace :: "(string \<rightharpoonup> pyval) \<Rightarrow> bool" where
  "module_namespace g \<longleftrightarrow> dom g \<subseteq> set module_bound_names"

definition script_globals :: "string \<rightharpoonup> pyval" where
  "script_globals n = (if n \<in> set module_bound_names then Some (PyObj n) else None)"

section \<open>\<^verbatim>\<open>load_data_from_url\<close>\<close>

text \<open>
  \<^verbatim>\<open>Response.raise_for_status\<close> of the requests library raises \<^verbatim>\<open>HTTPError\<close>, which carries
  the response, for the client and server error statuses 400 to 599 and returns otherwise.
\<close>

definition raise_for_status :: "response \<Rightarrow> py_error option" where
  "raise_for_status r =
     (if 400 \<le> status_code r \<and> status_code r < 600 then Some (HTTPError r) else None)"

text \<open>
  A call \<^verbatim>\<open>f(x, low_memory=False, **kwargs)\<close> raises \<^verbatim>\<open>TypeError\<close> when \<^verbatim>\<open>kwargs\<close> repeats
  the keyword.
\<close>

definition call_read_csv ::
  "('fs, 'a, 'r) world \<Rightarrow> 'fs \<Rightarrow> source \<Rightarrow> kwargs \<Rightarrow> py_error + 'a dataframe" where
  "call_read_csv W f src kw =
     (if ''low_memory'' \<in> fst ` set kw
      then Inl (TypeError ''got multiple values for keyword argument low_memory'')
      else pd_read_csv W f src kw)"

definition call_read_excel ::
  "('fs, 'a, 'r) world \<Rightarrow> 'fs \<Rightarrow> string \<Rightarrow> source \<Rightarrow> kwargs \<Rightarrow> py_error + 'a dataframe" where
  "call_read_excel W f engine src kw =
     (if ''engine'' \<in> fst ` set kw
      then Inl (TypeError ''got multiple values for keyword argument engine'')
      else pd_read_excel W f engine src kw)"

definition parse_csv ::
  "('fs, 'a, 'r) world \<Rightarrow> source \<Rightarrow> kwargs \<Rightarrow> 'fs state \<Rightarrow> (py_error + ('a, 'r) data) \<times> 'fs state" where
  "parse_csv W src kw \<sigma> =
     (let \<sigma>1 = log (EvReadCsv src) \<sigma> in
      case call_read_csv W (fs \<sigma>) src kw of
        Inl e \<Rightarrow> (Inl e, \<sigma>1)
      | Inr d \<Rightarrow> (Inr (DataFrame d), \<sigma>1))"

definition parse_excel ::
  "('fs, 'a, 'r) world \<Rightarrow> string \<Rightarrow> source \<Rightarrow> kwargs \<Rightarrow> 'fs state \<Rightarrow> (py_error + ('a, 'r) data) \<times> 'fs state" where
  "parse_excel W engine src kw \<sigma> =
     (let \<sigma>1 = log (EvReadExcel engine src) \<sigma> in
      case call_read_excel W (fs \<sigma>) engine src kw of
        Inl e \<Rightarrow> (Inl e, \<sigma>1)
      | Inr d \<Rightarrow> (Inr (DataFrame d), \<sigma>1))"

text \<open>
  \<^verbatim>\<open>gpd.read_file(src, **kwargs).to_crs(saws_crs)\<close>: the file is read first, then the global
  \<^verbatim>\<open>saws_crs\<close> is looked up (\<^verbatim>\<open>NameError\<close> when unbound), then the frame is reprojected.
\<close>

definition parse_vector ::
  "('fs, 'a, 'r) world \<Rightarrow> (string \<rightharpoonup> pyval) \<Rightarrow> source \<Rightarrow> kwargs \<Rightarrow> 'fs state
     \<Rightarrow> (py_error + ('a, 'r) data) \<times> 'fs state" where
  "parse_vector W g src kw \<sigma> =
     (let \<sigma>1 = log (EvReadFile src) \<sigma> in
      case gpd_read_file W (fs \<sigma>) src kw of
        Inl e \<Rightarrow> (Inl e, \<sigma>1)
      | Inr gdf \<Rightarrow>
          (case g ''saws_crs'' of
             None \<Rightarrow> (Inl (NameError ''saws_crs''), \<sigma>1)
           | Some saws_crs \<Rightarrow>
               (let \<sigma>2 = log (EvToCrs saws_crs) \<sigma>1 in
                case gdf_to_crs W gdf saws_crs of
                  Inl e \<Rightarrow> (Inl e, \<sigma>2)
                | Inr gdf' \<Rightarrow> (Inr (GeoDataFrame gdf'), \<sigma>2))))"

definition parse_raster ::
  "('fs, 'a, 'r) world \<Rightarrow> source \<Rightarrow> kwargs \<Rightarrow> 'fs state \<Rightarrow> (py_error + ('a, 'r) data) \<times> 'fs state" where
  "parse_raster W src kw \<sigma> =
     (let \<sigma>1 = log (EvRasterioOpen src) \<sigma> in
      case rasterio_open W (fs \<sigma>) src kw of
        Inl e \<Rightarrow> (Inl e, \<sigma>1)
      | Inr d \<Rightarrow> (Inr (DatasetReader d), \<sigma>1))"

definition check_url_message :: string where
  "check_url_message = ''Could not download data from this URL. Please check URL and try again.''"

text \<open>Lines 48 to 62: the dispatch of the branch \<^verbatim>\<open>if not zipped\<close>, on \<^verbatim>\<open>buffer\<close>.\<close>

definition parse_unzipped ::
  "('fs, 'a, 'r) world \<Rightarrow> (string \<rightharpoonup> pyval) \<Rightarrow> string \<Rightarrow> source \<Rightarrow> kwargs \<Rightarrow> 'fs state
     \<Rightarrow> (py_error + ('a, 'r) data) \<times> 'fs state" where
  "parse_unzipped W g file_type buffer kw \<sigma> =
     (if file_type = ''csv'' \<or> file_type = ''txt'' then parse_csv W buffer kw \<sigma>
      else if file_type = ''xls'' then parse_excel W ''xlrd'' buffer kw \<sigma>
      else if file_type = ''xlsx'' then parse_excel W ''openpyxl'' buffer kw \<sigma>
      else if file_type = ''vector'' then parse_vector W g buffer kw \<sigma>
      else if file_type = ''raster'' then parse_raster W buffer kw \<sigma>
      else (case parse_csv W buffer kw \<sigma> of
              (Inl e, \<sigma>') \<Rightarrow> (Inl (ValueError check_url_message), \<sigma>')
            | (Inr d, \<sigma>') \<Rightarrow> (Inr d, \<sigma>')))"

text \<open>
  The local variable \<^verbatim>\<open>data\<close> is \<open>None\<close> while no branch has assigned it; \<open>assign\<close> is the
  assignment \<^verbatim>\<open>data = ...\<close> of a parser's result.
\<close>

definition assign ::
  "(py_error + 'd) \<times> 's \<Rightarrow> (py_error + 'd option) \<times> 's" where
  "assign r = (case r of (Inl e, \<sigma>) \<Rightarrow> (Inl e, \<sigma>) | (Inr d, \<sigma>) \<Rightarrow> (Inr (Some d), \<sigma>))"

text \<open>Lines 71 to 79: the body of \<^verbatim>\<open>try\<close>, parsing from the open archive member.\<close>

definition direct_parse ::
  "('fs, 'a, 'r) world \<Rightarrow> bytes \<Rightarrow> string \<Rightarrow> string \<Rightarrow> kwargs \<Rightarrow> 'fs state
     \<Rightarrow> (py_error + ('a, 'r) data option) \<times> 'fs state" where
  "direct_parse W zip_file filepath file_type kw \<sigma> =
     (let \<sigma>1 = log (EvZipOpen filepath) \<sigma> in
      case zip_open W zip_file filepath of
        Some e \<Rightarrow> (Inl e, \<sigma>1)
      | None \<Rightarrow>
          (if file_type = ''csv'' then assign (parse_csv W (Member zip_file filepath) kw \<sigma>1)
           else if file_type = ''xls'' then assign (parse_excel W ''xlrd'' (Member zip_file filepath) kw \<sigma>1)
           else if file_type = ''xlsx'' then assign (parse_excel W ''openpyxl'' (Member zip_file filepath) kw \<sigma>1)
           else if file_type \<in> set [''vector'', ''raster'']
             then (Inl (NotImplementedError ''Shapefiles and rasters require extraction.''), \<sigma>1)
           else (Inr None, \<sigma>1)))"

text \<open>\<^verbatim>\<open>os.path.join\<close> of two POSIX paths.\<close>

definition os_path_join :: "string \<Rightarrow> string \<Rightarrow> string" where
  "os_path_join a b =
     (if take 1 b = ''/'' then b
      else if a = [] \<or> last a = CHR ''/'' then a @ b
      else a @ ''/'' @ b)"

text \<open>Lines 83 to 92: the dispatch of the handler, on \<^verbatim>\<open>full_path\<close>.\<close>

definition parse_extracted ::
  "('fs, 'a, 'r) world \<Rightarrow> (string \<rightharpoonup> pyval) \<Rightarrow> string \<Rightarrow> string \<Rightarrow> kwargs \<Rightarrow> 'fs state
     \<Rightarrow> (py_error + ('a, 'r) data option) \<times> 'fs state" where
  "parse_extracted W g file_type full_path kw \<sigma> =
     (if file_type = ''csv'' then assign (parse_csv W (Path full_path) kw \<sigma>)
      else if file_type = ''xls'' then assign (parse_excel W ''xlrd'' (Path full_path) kw \<sigma>)
      else if file_type = ''xlsx'' then assign (parse_excel W ''openpyxl'' (Path full_path) kw \<sigma>)
      else if file_type = ''vector'' then assign (parse_vector W g (Path full_path) kw \<sigma>)
      else if file_type = ''raster'' then assign (parse_raster W (Path full_path) kw \<sigma>)
      else (Inr None, \<sigma>))"

text \<open>Lines 81 to 93: the handler \<^verbatim>\<open>except:\<close>, the extraction fallback.\<close>

definition extraction_fallback ::
  "('fs, 'a, 'r) world \<Rightarrow> (string \<rightharpoonup> pyval) \<Rightarrow> bytes \<Rightarrow> string \<Rightarrow> string \<Rightarrow> kwargs \<Rightarrow> 'fs state
     \<Rightarrow> (py_error + ('a, 'r) data option) \<times> 'fs state" where
  "extraction_fallback W g zip_file filepath file_type kw \<sigma> =
     (let \<sigma>1 = log (EvExtractAll ''extracted_data'') \<sigma> in
      case zip_extractall W zip_file ''extracted_data'' (fs \<sigma>1) of
        (Some e, f1) \<Rightarrow> (Inl e, \<sigma>1\<lparr>fs := f1\<rparr>)
      | (None, f1) \<Rightarrow>
          (let full_path = os_path_abspath W (os_path_join ''extracted_data'' filepath) in
           case parse_extracted W g file_type full_path kw (\<sigma>1\<lparr>fs := f1\<rparr>) of
             (Inl e, \<sigma>2) \<Rightarrow> (Inl e, \<sigma>2)
           | (Inr data, \<sigma>2) \<Rightarrow>
               (let \<sigma>3 = log (EvRmtree ''extracted_data'') \<sigma>2 in
                case shutil_rmtree W ''extracted_data'' (fs \<sigma>3) of
                  (Some e, f2) \<Rightarrow> (Inl e, \<sigma>3\<lparr>fs := f2\<rparr>)
                | (None, f2) \<Rightarrow> (Inr data, \<sigma>3\<lparr>fs := f2\<rparr>))))"

text \<open>Lines 65 to 93: the branch \<^verbatim>\<open>else\<close> of \<^verbatim>\<open>if not zipped\<close>.\<close>

definition load_zipped ::
  "('fs, 'a, 'r) world \<Rightarrow> (string \<rightharpoonup> pyval) \<Rightarrow> bytes \<Rightarrow> string option \<Rightarrow> kwargs \<Rightarrow> 'fs state
     \<Rightarrow> (py_error + ('a, 'r) data option) \<times> 'fs state" where
  "load_zipped W g payload filepath kw \<sigma> =
     (let \<sigma>1 = log EvZipFile \<sigma> in
      case zipfile_ZipFile W payload of
        Some e \<Rightarrow> (Inl e, \<sigma>1)
      | None \<Rightarrow>
          (case filepath of
             None \<Rightarrow> (Inl (ValueError ''Must specify 'filepath' within ZIP archive.''), \<sigma>1)
           | Some path \<Rightarrow>
               (let file_type = detect_file_type path in
                case direct_parse W payload path file_type kw \<sigma>1 of
                  (Inr data, \<sigma>2) \<Rightarrow> (Inr data, \<sigma>2)
                | (Inl e, \<sigma>2) \<Rightarrow> extraction_fallback W g payload path file_type kw \<sigma>2)))"

text \<open>
  The whole function. \<^verbatim>\<open>return data\<close> raises \<^verbatim>\<open>UnboundLocalError\<close> when no branch has
  assigned \<^verbatim>\<open>data\<close>.
\<close>

definition return_data ::
  "(py_error + 'd option) \<times> 's \<Rightarrow> (py_error + 'd) \<times> 's" where
  "return_data r =
     (case r of
        (Inl e, \<sigma>) \<Rightarrow> (Inl e, \<sigma>)
      | (Inr None, \<sigma>) \<Rightarrow> (Inl (UnboundLocalError ''data''), \<sigma>)
      | (Inr (Some data), \<sigma>) \<Rightarrow> (Inr data, \<sigma>))"

definition load_data_from_url ::
  "('fs, 'a, 'r) world \<Rightarrow> (string \<rightharpoonup> pyval) \<Rightarrow> string \<Rightarrow> bool \<Rightarrow> string option \<Rightarrow> kwargs \<Rightarrow> 'fs state
     \<Rightarrow> (py_error + ('a, 'r) data) \<times> 'fs state" where
  "load_data_from_url W g url zipped filepath kw \<sigma> =
     (let \<sigma>1 = log (EvGet url) \<sigma> in
      case requests_get W url of
        Inl e \<Rightarrow> (Inl e, \<sigma>1)
      | Inr response \<Rightarrow>
          (case (if status_code response \<noteq> 200 then raise_for_status response else None) of
             Some e \<Rightarrow> (Inl e, \<sigma>1)
           | None \<Rightarrow>
               return_data
                 (if \<not> zipped
                  then assign (parse_unzipped W g (detect_file_type url) (Buffer (content response)) kw \<sigma>1)
                  else load_zipped W g (content response) filepath kw \<sigma>1)))"

section \<open>\<^verbatim>\<open>lat_long_to_point\<close>\<close>

text \<open>\<^verbatim>\<open>df[col]\<close> raises \<^verbatim>\<open>KeyError\<close> for a column the frame does not have.\<close>

definition getitem :: "'a dataframe \<Rightarrow> string \<Rightarrow> py_error + 'a list" where
  "getitem df col = (case map_of (columns df) col of None \<Rightarrow> Inl (KeyError col) | Some v \<Rightarrow> Inr v)"

text \<open>
  Line 117: the comprehension \<^verbatim>\<open>[Point(lon, lat) for lon, lat in zip(...)]\<close>. The constructor
  \<^verbatim>\<open>Point(lon, lat)\<close> of shapely takes the longitude as \<open>x\<close> and the latitude as \<open>y\<close>, converts
  both to floats and raises when a value is not a number; the first failure ends the
  comprehension.
\<close>

fun build_points :: "('fs, 'a, 'r) world \<Rightarrow> ('a \<times> 'a) list \<Rightarrow> py_error + 'a point list" where
  "build_points W [] = Inr []"
| "build_points W ((lon, lat) # rest) =
     (case shapely_Point W lon lat of
        Inl e \<Rightarrow> Inl e
      | Inr pt \<Rightarrow>
          (case build_points W rest of
             Inl e \<Rightarrow> Inl e
           | Inr pts \<Rightarrow> Inr (pt # pts)))"

text \<open>
  Lines 117 to 121. The constructor \<^verbatim>\<open>gpd.GeoDataFrame(df, geometry=df_geo, crs='EPSG:4326')\<close>
  may raise as well; the global \<^verbatim>\<open>saws_crs\<close> is looked up only after the frame is built.
\<close>

definition lat_long_to_point ::
  "('fs, 'a, 'r) world \<Rightarrow> (string \<rightharpoonup> pyval) \<Rightarrow> 'a dataframe \<Rightarrow> string \<Rightarrow> string
     \<Rightarrow> py_error + 'a geodataframe" where
  "lat_long_to_point W g df lat_col long_col =
     (case getitem df long_col of
        Inl e \<Rightarrow> Inl e
      | Inr longs \<Rightarrow>
          (case getitem df lat_col of
             Inl e \<Rightarrow> Inl e
           | Inr lats \<Rightarrow>
               (case build_points W (zip longs lats) of
                  Inl e \<Rightarrow> Inl e
                | Inr df_geo \<Rightarrow>
                    (case gpd_GeoDataFrame W df df_geo (PyStr ''EPSG:4326'') of
                       Inl e \<Rightarrow> Inl e
                     | Inr df1 \<Rightarrow>
                         (case g ''saws_crs'' of
                            None \<Rightarrow> Inl (NameError ''saws_crs'')
                          | Some saws_crs \<Rightarrow> gdf_to_crs W df1 saws_crs)))))"

section \<open>Definitions that follow the specification\<close>

text \<open>The extension as the specification words it: the text from the final \<open>.\<close> of the path.\<close>

definition ext_after_final_dot :: "string \<Rightarrow> string" where
  "ext_after_final_dot q =
     (if CHR ''.'' \<in> set q then CHR ''.'' # rev (takeWhile (\<lambda>c. c \<noteq> CHR ''.'') (rev q)) else [])"

definition basename :: "string \<Rightarrow> string" where
  "basename q = rev (takeWhile (\<lambda>c. c \<noteq> CHR ''/'') (rev q))"

text \<open>
  The extension of \<^verbatim>\<open>os.path.splitext\<close> in those terms: the text from the final \<open>.\<close>, when
  no \<open>/\<close> follows that \<open>.\<close> and the last component has a character other than \<open>.\<close>
  before it; empty otherwise.
\<close>

definition splitext_ext_spec :: "string \<Rightarrow> string" where
  "splitext_ext_spec q =
     (let e = ext_after_final_dot q;
          root = take (length q - length e) q
      in if e \<noteq> [] \<and> CHR ''/'' \<notin> set e \<and> (\<exists>c \<in> set (basename root). c \<noteq> CHR ''.'')
         then e else [])"

text \<open>The documented table from extensions to format tags.\<close>

definition format_tag :: "string \<Rightarrow> string" where
  "format_tag ext =
     (case map_of [(''.csv'', ''csv''), (''.txt'', ''txt''), (''.xls'', ''xls''), (''.xlsx'', ''xlsx''),
                   (''.shp'', ''vector''), (''.geojson'', ''vector''), (''.gpkg'', ''vector''),
                   (''.json'', ''vector''), (''.kml'', ''vector''),
                   (''.tif'', ''raster''), (''.tiff'', ''raster'')] ext of
        Some t \<Rightarrow> t
      | None \<Rightarrow> ''unknown'')"

text \<open>
  The fetch returns the response \<open>r\<close> and the status check of lines 41 and 42 raises nothing.
\<close>

definition fetched :: "('fs, 'a, 'r) world \<Rightarrow> string \<Rightarrow> response \<Rightarrow> bool" where
  "fetched W u r \<longleftrightarrow>
     requests_get W u = Inr r \<and> (status_code r = 200 \<or> raise_for_status r = None)"

definition full_path :: "('fs, 'a, 'r) world \<Rightarrow> string \<Rightarrow> string" where
  "full_path W filepath = os_path_abspath W (os_path_join ''extracted_data'' filepath)"


text \<open>The contract of \<^verbatim>\<open>shutil.rmtree\<close>: when it returns, the directory is gone.\<close>

definition rmtree_removes :: "('fs, 'a, 'r) world \<Rightarrow> bool" where
  "rmtree_removes W \<longleftrightarrow>
     (\<forall>d f f'. shutil_rmtree W d f = (None, f') \<longrightarrow> \<not> os_path_exists W f' d)"

section \<open>A concrete world\<close>

text \<open>
  A server that answers every URL with status \<open>sc\<close> and body \<open>payload\<close>; an archive with four
  members; a file system given by the list of its directories; parsers that accept every
  non-empty input and name what they read.
\<close>

definition demo_members :: "string list" where
  "demo_members = [''Major_Ions.csv'', ''dem.tif'', ''wells.shp'', ''notes.txt'']"

definition demo_frame :: "string \<Rightarrow> int dataframe" where
  "demo_frame name = \<lparr>columns = [(name, [])]\<rparr>"

definition demo_read :: "string list \<Rightarrow> source \<Rightarrow> py_error + string" where
  "demo_read f src =
     (case src of
        Buffer b \<Rightarrow> if b = [] then Inl (OtherError ''EmptyDataError'') else Inr b
      | Member z n \<Rightarrow> Inr n
      | Path p \<Rightarrow> if ''extracted_data'' \<in> set f then Inr p else Inl (OtherError ''FileNotFoundError''))"

definition demo_world :: "int \<Rightarrow> bytes \<Rightarrow> (string list, int, string) world" where
  "demo_world sc payload =
     \<lparr>requests_get = (\<lambda>u. Inr \<lparr>status_code = sc, content = payload, resp_url = u\<rparr>),
      zipfile_ZipFile = (\<lambda>b. if take 2 b = ''PK'' then None else Some (OtherError ''BadZipFile'')),
      zip_open = (\<lambda>b n. if n \<in> set demo_members then None else Some (KeyError n)),
      zip_extractall = (\<lambda>b d f. (None, d # f)),
      os_path_abspath = (\<lambda>p. ''/work/'' @ p),
      pd_read_csv = (\<lambda>f src kw. case demo_read f src of Inl e \<Rightarrow> Inl e | Inr n \<Rightarrow> Inr (demo_frame n)),
      pd_read_excel = (\<lambda>f engine src kw. case demo_read f src of Inl e \<Rightarrow> Inl e | Inr n \<Rightarrow> Inr (demo_frame n)),
      gpd_read_file = (\<lambda>f src kw. case demo_read f src of Inl e \<Rightarrow> Inl e
                        | Inr n \<Rightarrow> Inr \<lparr>table = demo_frame n, geometry = [], crs = PyStr ''EPSG:4269''\<rparr>),
      gdf_to_crs = (\<lambda>d c. Inr (d\<lparr>crs := c\<rparr>)),
      rasterio_open = (\<lambda>f src kw. demo_read f src),
      shapely_Point = (\<lambda>x y. Inr (Point x y)),
      gpd_GeoDataFrame = (\<lambda>df geo c. Inr \<lparr>table = df, geometry = geo, crs = c\<rparr>),
      shutil_rmtree = (\<lambda>d f. if d \<in> set f then (None, removeAll d f)
                               else (Some (OtherError ''FileNotFoundError''), f)),
      os_path_exists = (\<lambda>f p. p \<in> set f)\<rparr>"

section \<open>The format detector: what it computes\<close>

lemma rfind_notin: "c \<notin> set s \<Longrightarrow> rfind c s = - 1"
  by (induction s) auto

lemma rfind_ge: "- 1 \<le> rfind c s"
  by (induction s) (auto simp: Let_def)

lemma rfind_in: "c \<in> set s \<Longrightarrow> 0 \<le> rfind c s"
  by (induction s) (auto simp: Let_def)

lemma rfind_lt: "rfind c s < int (length s)"
  by (induction s) (auto simp: Let_def)

lemma rfind_last: "c \<notin> set b \<Longrightarrow> rfind c (a @ c # b) = int (length a)"
  by (induction a) (auto simp: Let_def rfind_notin)

lemma rfind_append_notin: "c \<notin> set b \<Longrightarrow> rfind c (a @ b) = rfind c a"
  by (induction a) (auto simp: Let_def rfind_notin)

lemma skip_leading_dots_iff:
  "d \<le> length p \<Longrightarrow>
   skip_leading_dots p i d \<longleftrightarrow> (\<exists>c \<in> set (drop i (take d p)). c \<noteq> CHR ''.'')"
proof (induction p i d rule: skip_leading_dots.induct)
  case (1 p i d)
  show ?case
  proof (cases "i < d")
    case False
    then show ?thesis by (simp add: skip_leading_dots.simps)
  next
    case True
    with "1.prems" have il: "i < length p" by simp
    have dr: "drop i (take d p) = p ! i # drop (Suc i) (take d p)"
      using True "1.prems" by (simp add: Cons_nth_drop_Suc [symmetric])
    have t1: "take 1 (drop i p) = [p ! i]"
      using il by (simp add: take_Suc_conv_app_nth Cons_nth_drop_Suc [symmetric])
    show ?thesis
    proof (cases "p ! i = CHR ''.''")
      case True
      with "1.IH" [OF \<open>i < d\<close> _ "1.prems"] t1 dr \<open>i < d\<close> show ?thesis
        by (subst skip_leading_dots.simps) simp
    next
      case False
      with t1 dr \<open>i < d\<close> show ?thesis
        by (subst skip_leading_dots.simps) simp
    qed
  qed
qed

lemma basename_drop: "basename s = drop (nat (rfind CHR ''/'' s + 1)) s"
proof (cases "CHR ''/'' \<in> set s")
  case False
  then have "takeWhile (\<lambda>c. c \<noteq> CHR ''/'') (rev s) = rev s"
    by (intro takeWhile_eq_all_conv [THEN iffD2]) auto
  then have "basename s = s" by (simp only: basename_def rev_rev_ident)
  moreover have "rfind CHR ''/'' s = - 1" using False by (rule rfind_notin)
  ultimately show ?thesis by simp
next
  case True
  then obtain a b where s: "s = a @ CHR ''/'' # b" and nb: "CHR ''/'' \<notin> set b"
    by (meson split_list_last)
  have "takeWhile (\<lambda>c. c \<noteq> CHR ''/'') (rev b @ CHR ''/'' # rev a) = rev b"
    using nb by (auto simp: takeWhile_tail)
  then have "basename s = b" by (simp add: s basename_def)
  moreover have "nat (rfind CHR ''/'' s + 1) = Suc (length a)"
    using nb by (simp add: s rfind_last nat_add_distrib)
  ultimately show ?thesis by (simp add: s)
qed


lemma splitext_ext: "snd (splitext q) = splitext_ext_spec q"
proof (cases "CHR ''.'' \<in> set q")
  case False
  then have "rfind CHR ''.'' q = - 1" by (rule rfind_notin)
  moreover have "- 1 \<le> rfind CHR ''/'' q" by (rule rfind_ge)
  ultimately show ?thesis
    using False by (simp add: splitext_def splitext_ext_spec_def ext_after_final_dot_def)
next
  case True
  then obtain a b where q: "q = a @ CHR ''.'' # b" and nb: "CHR ''.'' \<notin> set b"
    by (meson split_list_last)
  have dot: "rfind CHR ''.'' q = int (length a)"
    using nb by (simp add: q rfind_last)
  have "takeWhile (\<lambda>c. c \<noteq> CHR ''.'') (rev b @ CHR ''.'' # rev a) = rev b"
    using nb by (auto simp: takeWhile_tail)
  then have e: "ext_after_final_dot q = CHR ''.'' # b"
    by (simp add: q ext_after_final_dot_def)
  have root: "take (length q - length (CHR ''.'' # b)) q = a"
    by (simp add: q)
  show ?thesis
  proof (cases "CHR ''/'' \<in> set b")
    case True
    then obtain b1 b2 where b: "b = b1 @ CHR ''/'' # b2" and nb2: "CHR ''/'' \<notin> set b2"
      by (meson split_list_last)
    have "q = (a @ CHR ''.'' # b1) @ CHR ''/'' # b2" by (simp add: q b)
    then have "rfind CHR ''/'' q = int (length (a @ CHR ''.'' # b1))"
      using nb2 rfind_last by metis
    with dot True show ?thesis
      by (simp add: splitext_def splitext_ext_spec_def e)
  next
    case False
    then have sep: "rfind CHR ''/'' q = rfind CHR ''/'' a"
      by (simp add: q rfind_append_notin)
    have lt: "rfind CHR ''/'' a < int (length a)" by (rule rfind_lt)
    have ge: "- 1 \<le> rfind CHR ''/'' a" by (rule rfind_ge)
    have "skip_leading_dots q (nat (rfind CHR ''/'' a + 1)) (length a)
            \<longleftrightarrow> (\<exists>c \<in> set (drop (nat (rfind CHR ''/'' a + 1)) (take (length a) q)). c \<noteq> CHR ''.'')"
      by (rule skip_leading_dots_iff) (simp add: q)
    also have "take (length a) q = a" by (simp add: q)
    also have "drop (nat (rfind CHR ''/'' a + 1)) a = basename a" by (simp add: basename_drop)
    finally have skip: "skip_leading_dots q (nat (rfind CHR ''/'' a + 1)) (length a)
            \<longleftrightarrow> (\<exists>c \<in> set (basename a). c \<noteq> CHR ''.'')" .
    have "drop (length a) q = CHR ''.'' # b" by (simp add: q)
    with dot sep lt skip False root show ?thesis
      by (simp add: splitext_def splitext_ext_spec_def e)
  qed
qed

lemma detect_file_type_spec: "detect_file_type p = format_tag (splitext_ext_spec (lower p))"
  by (simp add: detect_file_type_def splitext_ext format_tag_def Let_def)

lemmas detector_eval =
  detect_file_type_spec format_tag_def splitext_ext_spec_def ext_after_final_dot_def
  basename_def lower_def lower_char_def

text \<open>
  C3, as stated, fails: for the path \<open>.csv\<close> the text from the final \<open>.\<close> is \<open>.csv\<close>, but
  \<^verbatim>\<open>os.path.splitext\<close> takes the leading dot of a file name as part of the root, so the
  detector sees no extension and answers \<open>unknown\<close>.
\<close>

theorem detect_file_type_dotfile_counterexample:
  "ext_after_final_dot (lower ''.csv'') = ''.csv'' \<and> detect_file_type ''.csv'' = ''unknown''"
  by (simp add: detector_eval)

text \<open>
  C3, amended: for every path, the detector lower-cases the path and takes the extension of
  \<^verbatim>\<open>os.path.splitext\<close>, which is the text from the final \<open>.\<close> when no \<open>/\<close> follows that
  \<open>.\<close> and the last component has a character other than \<open>.\<close> before it, and is empty
  otherwise; it returns the tag the documented table gives that extension, \<open>unknown\<close> for
  every extension outside the table, and is total (it never raises).
\<close>

theorem detect_file_type_table:
  "detect_file_type p = format_tag (splitext_ext_spec (lower p))"
  by (rule detect_file_type_spec)

theorem detect_file_type_table_witness:
  "detect_file_type ''https://example.org/A/Wells.GeoJSON'' = ''vector''
   \<and> detect_file_type ''archive/README'' = ''unknown''"
  using detect_file_type_table [of "''https://example.org/A/Wells.GeoJSON''"]
    detect_file_type_table [of "''archive/README''"]
  by (simp add: format_tag_def splitext_ext_spec_def ext_after_final_dot_def
      basename_def lower_def lower_char_def)

section \<open>The loader: the fetch\<close>

lemmas loader_defs =
  load_data_from_url_def return_data_def assign_def load_zipped_def direct_parse_def
  extraction_fallback_def parse_extracted_def parse_unzipped_def parse_csv_def
  parse_excel_def parse_vector_def parse_raster_def log_def init_def

lemmas demo_defs =
  demo_world_def demo_read_def demo_members_def demo_frame_def call_read_csv_def
  call_read_excel_def raise_for_status_def script_globals_def module_bound_names_def
  os_path_join_def full_path_def

lemma load_fetched:
  "fetched W u r \<Longrightarrow>
   load_data_from_url W g u zipped filepath kw \<sigma> =
     return_data
       (if \<not> zipped
        then assign (parse_unzipped W g (detect_file_type u) (Buffer (content r)) kw (log (EvGet u) \<sigma>))
        else load_zipped W g (content r) filepath kw (log (EvGet u) \<sigma>))"
  by (auto simp: load_data_from_url_def fetched_def Let_def)

lemma demo_fetched:
  "sc = 200 \<or> \<not> (400 \<le> sc \<and> sc < 600) \<Longrightarrow>
   fetched (demo_world sc payload) u \<lparr>status_code = sc, content = payload, resp_url = u\<rparr>"
  by (auto simp: fetched_def demo_world_def raise_for_status_def)

lemma detect_examples:
  "detect_file_type ''dem.tif'' = ''raster''"
  "detect_file_type ''wells.shp'' = ''vector''"
  "detect_file_type ''notes.txt'' = ''txt''"
  "detect_file_type ''missing.dat'' = ''unknown''"
  "detect_file_type ''tables/Major_Ions.csv'' = ''csv''"
  "detect_file_type ''http://example.org/data.csv'' = ''csv''"
  "detect_file_type ''http://example.org/export'' = ''unknown''"
  "detect_file_type ''http://example.org/regions.geojson'' = ''vector''"
  by (simp_all add: detector_eval)

text \<open>
  C5, as stated, fails: \<^verbatim>\<open>raise_for_status\<close> raises for the statuses 400 to 599 only. A
  response with status 300 is not a success status, yet the loader goes on and parses the
  body.
\<close>

theorem load_status_300_counterexample:
  "requests_get (demo_world 300 ''TDS_mgL'') ''http://example.org/data.csv''
     = Inr \<lparr>status_code = 300, content = ''TDS_mgL'', resp_url = ''http://example.org/data.csv''\<rparr>
   \<and> load_data_from_url (demo_world 300 ''TDS_mgL'') script_globals
         ''http://example.org/data.csv'' False None [] (init [])
       = (Inr (DataFrame \<lparr>columns = [(''TDS_mgL'', [])]\<rparr>),
          \<lparr>fs = [], trace = [EvGet ''http://example.org/data.csv'', EvReadCsv (Buffer ''TDS_mgL'')]\<rparr>)"
  by (simp add: loader_defs demo_defs detect_examples)

text \<open>
  C5, amended: for every fetch whose response status is a client or server error status
  (400 to 599), \<^verbatim>\<open>load_data_from_url\<close> fails with the transport error \<^verbatim>\<open>HTTPError\<close>, which
  carries the response and so its status code and URL, before any parsing is attempted: the
  GET is the only library call made. In particular a response with status 404 fails so.
\<close>

theorem load_http_error_status:
  assumes "requests_get W u = Inr r" and "400 \<le> status_code r" and "status_code r < 600"
  shows "load_data_from_url W g u zipped filepath kw (init f)
           = (Inl (HTTPError r), \<lparr>fs = f, trace = [EvGet u]\<rparr>)"
  using assms by (simp add: load_data_from_url_def raise_for_status_def log_def init_def)

theorem load_http_error_status_witness:
  "load_data_from_url (demo_world 404 ''Not Found'') script_globals
       ''http://example.org/data.csv'' False None [] (init [])
     = (Inl (HTTPError \<lparr>status_code = 404, content = ''Not Found'',
                         resp_url = ''http://example.org/data.csv''\<rparr>),
        \<lparr>fs = [], trace = [EvGet ''http://example.org/data.csv'']\<rparr>)"
proof -
  have get: "requests_get (demo_world 404 ''Not Found'') ''http://example.org/data.csv''
      = Inr \<lparr>status_code = 404, content = ''Not Found'', resp_url = ''http://example.org/data.csv''\<rparr>"
    by (simp add: demo_world_def)
  show ?thesis
    using load_http_error_status [OF get, of script_globals False None "[]" "[]"] by simp
qed

section \<open>The loader: the non-zipped branch\<close>

text \<open>
  C7, as stated, fails: the error raised when the CSV fallback fails is a \<^verbatim>\<open>ValueError\<close> with
  a fixed message (an f-string without a placeholder); the URL is not in it.
\<close>

theorem load_unknown_error_counterexample:
  "fst (load_data_from_url (demo_world 200 []) script_globals
          ''http://example.org/export'' False None [] (init []))
     = Inl (ValueError ''Could not download data from this URL. Please check URL and try again.'')
   \<and> \<not> sublist ''http://example.org/export''
          ''Could not download data from this URL. Please check URL and try again.''"
proof
  show "fst (load_data_from_url (demo_world 200 []) script_globals
          ''http://example.org/export'' False None [] (init []))
     = Inl (ValueError ''Could not download data from this URL. Please check URL and try again.'')"
    by (simp add: loader_defs demo_defs detect_examples check_url_message_def)
  show "\<not> sublist ''http://example.org/export''
          ''Could not download data from this URL. Please check URL and try again.''"
    by code_simp
qed

text \<open>
  C7, amended: for every non-zipped load whose fetch passes the status check and whose
  detected format tag is \<open>unknown\<close>, \<^verbatim>\<open>load_data_from_url\<close> makes exactly one parse attempt,
  as CSV on the payload; it returns the parsed table when that attempt succeeds, and if and
  only if the attempt fails it fails with the unsupported-format error, a \<^verbatim>\<open>ValueError\<close>
  that carries only the fixed user-facing message asking the caller to check the URL (the
  URL itself is not part of the error).
\<close>

theorem load_unknown_csv_fallback:
  assumes "fetched W u r" and "detect_file_type u = ''unknown''"
  shows "load_data_from_url W g u False filepath kw (init f)
           = ((case call_read_csv W f (Buffer (content r)) kw of
                 Inl e \<Rightarrow> Inl (ValueError ''Could not download data from this URL. Please check URL and try again.'')
               | Inr d \<Rightarrow> Inr (DataFrame d)),
              \<lparr>fs = f, trace = [EvGet u, EvReadCsv (Buffer (content r))]\<rparr>)"
  using assms(2)
  by (simp add: load_fetched [OF assms(1)] return_data_def assign_def parse_unzipped_def
      parse_csv_def log_def init_def check_url_message_def split: sum.splits)

theorem load_unknown_csv_fallback_witness:
  "load_data_from_url (demo_world 200 ''TDS_mgL'') script_globals
       ''http://example.org/export'' False None [] (init [])
     = (Inr (DataFrame \<lparr>columns = [(''TDS_mgL'', [])]\<rparr>),
        \<lparr>fs = [], trace = [EvGet ''http://example.org/export'', EvReadCsv (Buffer ''TDS_mgL'')]\<rparr>)"
proof -
  have f: "fetched (demo_world 200 ''TDS_mgL'') ''http://example.org/export''
      \<lparr>status_code = 200, content = ''TDS_mgL'', resp_url = ''http://example.org/export''\<rparr>"
    by (simp add: demo_fetched)
  show ?thesis
    using load_unknown_csv_fallback [OF f detect_examples(7), of script_globals None "[]" "[]"]
    by (simp add: demo_defs)
qed

text \<open>
  C2, on the code: a non-zipped load of a vector payload reads the file and then looks up
  the global \<^verbatim>\<open>saws_crs\<close>, which the module never binds; the load fails with \<^verbatim>\<open>NameError\<close>
  after the read, and no frame in the target CRS is returned.
\<close>

theorem load_vector_name_error:
  "load_data_from_url (demo_world 200 ''{features}'') script_globals
       ''http://example.org/regions.geojson'' False None [] (init [])
     = (Inl (NameError ''saws_crs''),
        \<lparr>fs = [], trace = [EvGet ''http://example.org/regions.geojson'',
                            EvReadFile (Buffer ''{features}'')]\<rparr>)"
  by (simp add: loader_defs demo_defs detect_examples)

section \<open>The coordinate helper\<close>

text \<open>
  C8, on the code: for the table with one record, latitude 34 and longitude -118, the
  helper builds the point and the frame and then looks up the global \<^verbatim>\<open>saws_crs\<close>, which the
  module never binds; it fails with \<^verbatim>\<open>NameError\<close> and returns no frame.
\<close>

theorem lat_long_to_point_name_error:
  "lat_long_to_point (demo_world 200 []) script_globals
       \<lparr>columns = [(''lat'', [34]), (''long'', [- 118])]\<rparr> ''lat'' ''long''
     = Inl (NameError ''saws_crs'')"
  by (simp add: lat_long_to_point_def getitem_def script_globals_def module_bound_names_def
      demo_world_def)

section \<open>The loader: the zipped branch\<close>

lemma return_data_not_Inr:
  "fst r \<noteq> Inr (Some d) \<Longrightarrow> fst (return_data r) \<noteq> Inr d"
  by (auto simp: return_data_def split: prod.splits sum.splits option.splits)

lemma load_zipped_no_filepath:
  "fst (load_zipped W g z None kw \<sigma>) \<noteq> Inr d"
  by (simp add: load_zipped_def Let_def split: option.splits)

lemma load_no_filepath_fails:
  "fst (load_data_from_url W g u True None kw \<sigma>) \<noteq> Inr d"
  by (auto simp: load_data_from_url_def Let_def return_data_not_Inr load_zipped_no_filepath
      split: sum.splits option.splits)

text \<open>
  C6, as stated, fails: the archive is opened at line 65, before the test of \<^verbatim>\<open>filepath\<close> at
  line 66. A zipped load with the inner path absent whose payload is not a zip archive
  fails with the error of \<^verbatim>\<open>zipfile.ZipFile\<close>, not with the missing-inner-path error.
\<close>

theorem load_zipped_without_filepath_counterexample:
  "load_data_from_url (demo_world 200 ''<html>'') script_globals
       ''http://example.org/ions.zip'' True None [] (init [])
     = (Inl (OtherError ''BadZipFile''),
        \<lparr>fs = [], trace = [EvGet ''http://example.org/ions.zip'', EvZipFile]\<rparr>)"
  by (simp add: load_data_from_url_def return_data_def load_zipped_def log_def init_def
      demo_world_def raise_for_status_def)

text \<open>
  C6, amended: a zipped load with the inner path absent returns no structure, whatever the
  network and the libraries do; and when the fetch passes the status check and the payload
  opens as a zip archive, it fails with the missing-inner-path error, the \<^verbatim>\<open>ValueError\<close> of
  line 67, having only fetched the payload and opened the archive.
\<close>

theorem load_zipped_without_filepath:
  "(\<forall>d. fst (load_data_from_url W g u True None kw \<sigma>) \<noteq> Inr d)
   \<and> (fetched W u r \<and> zipfile_ZipFile W (content r) = None \<longrightarrow>
        load_data_from_url W g u True None kw (init f)
          = (Inl (ValueError ''Must specify 'filepath' within ZIP archive.''),
             \<lparr>fs = f, trace = [EvGet u, EvZipFile]\<rparr>))"
  by (auto simp: load_no_filepath_fails load_fetched load_zipped_def return_data_def
      log_def init_def)

theorem load_zipped_without_filepath_witness:
  "load_data_from_url (demo_world 200 ''PK-archive'') script_globals
       ''http://example.org/ions.zip'' True None [] (init [])
     = (Inl (ValueError ''Must specify 'filepath' within ZIP archive.''),
        \<lparr>fs = [], trace = [EvGet ''http://example.org/ions.zip'', EvZipFile]\<rparr>)"
proof -
  have f: "fetched (demo_world 200 ''PK-archive'') ''http://example.org/ions.zip''
      \<lparr>status_code = 200, content = ''PK-archive'', resp_url = ''http://example.org/ions.zip''\<rparr>"
    by (simp add: demo_fetched)
  have z: "zipfile_ZipFile (demo_world 200 ''PK-archive'')
      (content \<lparr>status_code = 200, content = ''PK-archive'', resp_url = ''http://example.org/ions.zip''\<rparr>) = None"
    by (simp add: demo_world_def)
  show ?thesis
    using load_zipped_without_filepath
      [of "demo_world 200 ''PK-archive''" script_globals "''http://example.org/ions.zip''" "[]"
          "init []" "\<lparr>status_code = 200, content = ''PK-archive'', resp_url = ''http://example.org/ions.zip''\<rparr>" "[]"]
      f z
    by simp
qed

text \<open>
  C10: for a zipped load whose fetch passes the status check, whose payload opens as an
  archive and whose inner path maps to \<open>txt\<close> or \<open>unknown\<close>, no branch assigns \<^verbatim>\<open>data\<close>.
  When the member opens, the body of \<^verbatim>\<open>try\<close> raises nothing, the fallback is skipped and
  \<^verbatim>\<open>return data\<close> fails with \<^verbatim>\<open>UnboundLocalError\<close>. When opening the member raises, the
  fallback runs: it extracts, parses nothing and removes the scratch directory, and (these
  two calls raising nothing) \<^verbatim>\<open>return data\<close> fails the same way. In no case is a structure
  returned.
\<close>

theorem zipped_txt_unknown_unbound:
  assumes "fetched W u r" and "zipfile_ZipFile W (content r) = None"
    and "detect_file_type p = ''txt'' \<or> detect_file_type p = ''unknown''"
  shows "(zip_open W (content r) p = None \<longrightarrow>
            load_data_from_url W g u True (Some p) kw (init f)
              = (Inl (UnboundLocalError ''data''),
                 \<lparr>fs = f, trace = [EvGet u, EvZipFile, EvZipOpen p]\<rparr>))
       \<and> (zip_open W (content r) p = Some e
            \<and> zip_extractall W (content r) ''extracted_data'' f = (None, f1)
            \<and> shutil_rmtree W ''extracted_data'' f1 = (None, f2) \<longrightarrow>
            load_data_from_url W g u True (Some p) kw (init f)
              = (Inl (UnboundLocalError ''data''),
                 \<lparr>fs = f2, trace = [EvGet u, EvZipFile, EvZipOpen p,
                                     EvExtractAll ''extracted_data'', EvRmtree ''extracted_data'']\<rparr>))
       \<and> (\<forall>d. fst (load_data_from_url W g u True (Some p) kw \<sigma>) \<noteq> Inr d)"
proof -
  have "load_zipped W g (content r) (Some p) kw \<sigma>' \<noteq> (Inr (Some d), \<sigma>'')" for \<sigma>' \<sigma>'' d
    using assms(2,3)
    by (auto simp: load_zipped_def direct_parse_def extraction_fallback_def
        parse_extracted_def Let_def split: option.splits prod.splits)
  then have "fst (load_data_from_url W g u True (Some p) kw \<sigma>) \<noteq> Inr d" for d
    by (auto simp: load_fetched [OF assms(1)] return_data_def
        split: prod.splits sum.splits option.splits)
  then show ?thesis
    using assms(2,3)
    by (auto simp: load_fetched [OF assms(1)] return_data_def load_zipped_def direct_parse_def
        extraction_fallback_def parse_extracted_def log_def init_def Let_def)
qed


theorem zipped_txt_unknown_unbound_witness:
  "load_data_from_url (demo_world 200 ''PK-archive'') script_globals
       ''http://example.org/ions.zip'' True (Some ''notes.txt'') [] (init [])
     = (Inl (UnboundLocalError ''data''),
        \<lparr>fs = [], trace = [EvGet ''http://example.org/ions.zip'', EvZipFile, EvZipOpen ''notes.txt'']\<rparr>)
   \<and> load_data_from_url (demo_world 200 ''PK-archive'') script_globals
       ''http://example.org/ions.zip'' True (Some ''missing.dat'') [] (init [])
     = (Inl (UnboundLocalError ''data''),
        \<lparr>fs = [], trace = [EvGet ''http://example.org/ions.zip'', EvZipFile, EvZipOpen ''missing.dat'',
                            EvExtractAll ''extracted_data'', EvRmtree ''extracted_data'']\<rparr>)"
proof -
  let ?W = "demo_world 200 ''PK-archive'' :: (string list, int, string) world"
  let ?r = "\<lparr>status_code = 200, content = ''PK-archive'', resp_url = ''http://example.org/ions.zip''\<rparr>"
  have f: "fetched ?W ''http://example.org/ions.zip'' ?r"
    by (simp add: demo_fetched)
  have z: "zipfile_ZipFile ?W (content ?r) = None"
    by (simp add: demo_world_def)
  have t1: "detect_file_type ''notes.txt'' = ''txt'' \<or> detect_file_type ''notes.txt'' = ''unknown''"
    by (simp add: detect_examples)
  have t2: "detect_file_type ''missing.dat'' = ''txt'' \<or> detect_file_type ''missing.dat'' = ''unknown''"
    by (simp add: detect_examples)
  show ?thesis
    using zipped_txt_unknown_unbound [OF f z t1, of script_globals "[]" "[]"]
      zipped_txt_unknown_unbound [OF f z t2, where e = "KeyError ''missing.dat''" and f = "[]"
          and ?f1.0 = "[''extracted_data'']" and ?f2.0 = "[]" and g = script_globals and kw = "[]"]
    by (simp add: demo_world_def demo_members_def)
qed

section \<open>The unbound global\<close>

lemma module_namespace_saws_crs: "module_namespace g \<Longrightarrow> g ''saws_crs'' = None"
  by (auto simp: module_namespace_def module_bound_names_def)

lemma script_globals_namespace: "module_namespace script_globals"
  by (auto simp: module_namespace_def script_globals_def split: if_splits)

lemma parse_vector_unbound:
  "g ''saws_crs'' = None \<Longrightarrow> fst (parse_vector W g src kw \<sigma>) \<noteq> Inr (GeoDataFrame d)"
  by (simp add: parse_vector_def Let_def split: sum.splits)

lemma parse_csv_no_frame: "fst (parse_csv W src kw \<sigma>) \<noteq> Inr (GeoDataFrame d)"
  by (simp add: parse_csv_def Let_def split: sum.splits)

lemma parse_excel_no_frame: "fst (parse_excel W engine src kw \<sigma>) \<noteq> Inr (GeoDataFrame d)"
  by (simp add: parse_excel_def Let_def split: sum.splits)

lemma parse_raster_no_frame: "fst (parse_raster W src kw \<sigma>) \<noteq> Inr (GeoDataFrame d)"
  by (simp add: parse_raster_def Let_def split: sum.splits)

lemmas no_frame =
  parse_vector_unbound parse_csv_no_frame parse_excel_no_frame parse_raster_no_frame

lemma assign_no_frame:
  "fst r \<noteq> Inr d \<Longrightarrow> fst (assign r) \<noteq> Inr (Some d)"
  by (auto simp: assign_def split: prod.splits sum.splits)

lemma parse_unzipped_no_frame:
  "g ''saws_crs'' = None \<Longrightarrow> fst (parse_unzipped W g t src kw \<sigma>) \<noteq> Inr (GeoDataFrame d)"
proof -
  assume g: "g ''saws_crs'' = None"
  have "fst (case parse_csv W src kw \<sigma> of
               (Inl e, \<sigma>') \<Rightarrow> (Inl (ValueError check_url_message), \<sigma>')
             | (Inr d, \<sigma>') \<Rightarrow> (Inr d, \<sigma>')) \<noteq> Inr (GeoDataFrame d)"
    using parse_csv_no_frame [of W src kw \<sigma> d]
    by (auto split: prod.splits sum.splits)
  with g show ?thesis
    by (simp add: parse_unzipped_def no_frame)
qed

lemma parse_extracted_no_frame:
  "g ''saws_crs'' = None \<Longrightarrow> fst (parse_extracted W g t path kw \<sigma>) \<noteq> Inr (Some (GeoDataFrame d))"
  by (simp add: parse_extracted_def no_frame assign_no_frame)

lemma direct_parse_no_frame:
  "fst (direct_parse W z p t kw \<sigma>) \<noteq> Inr (Some (GeoDataFrame d))"
  by (simp add: direct_parse_def Let_def no_frame assign_no_frame split: option.splits)

lemma parse_extracted_no_frame':
  "g ''saws_crs'' = None \<Longrightarrow>
   parse_extracted W g t path kw \<sigma> \<noteq> (Inr (Some (GeoDataFrame d)), \<sigma>')"
  by (metis parse_extracted_no_frame fst_conv)

lemma direct_parse_no_frame':
  "direct_parse W z p t kw \<sigma> \<noteq> (Inr (Some (GeoDataFrame d)), \<sigma>')"
  by (metis direct_parse_no_frame fst_conv)

lemma extraction_fallback_no_frame:
  "g ''saws_crs'' = None \<Longrightarrow>
   fst (extraction_fallback W g z p t kw \<sigma>) \<noteq> Inr (Some (GeoDataFrame d))"
  by (auto simp: extraction_fallback_def Let_def parse_extracted_no_frame'
      split: prod.splits sum.splits option.splits)

lemma load_zipped_no_frame:
  "g ''saws_crs'' = None \<Longrightarrow> fst (load_zipped W g z fp kw \<sigma>) \<noteq> Inr (Some (GeoDataFrame d))"
  by (auto simp: load_zipped_def Let_def extraction_fallback_no_frame direct_parse_no_frame'
      split: prod.splits sum.splits option.splits)

lemma load_no_frame:
  "g ''saws_crs'' = None \<Longrightarrow>
   fst (load_data_from_url W g u zipped fp kw \<sigma>) \<noteq> Inr (GeoDataFrame d)"
  by (auto simp: load_data_from_url_def Let_def return_data_not_Inr load_zipped_no_frame
      parse_unzipped_no_frame assign_no_frame split: sum.splits option.splits)

lemma lat_long_unbound:
  "g ''saws_crs'' = None \<Longrightarrow> lat_long_to_point W g df lat_col long_col \<noteq> Inr d"
  by (simp add: lat_long_to_point_def split: sum.splits)

lemma load_vector_unbound:
  assumes "g ''saws_crs'' = None" and "fetched W u r" and "detect_file_type u = ''vector''"
    and "gpd_read_file W f (Buffer (content r)) kw = Inr gdf"
  shows "load_data_from_url W g u False filepath kw (init f)
           = (Inl (NameError ''saws_crs''),
              \<lparr>fs = f, trace = [EvGet u, EvReadFile (Buffer (content r))]\<rparr>)"
  using assms(1,3,4)
  by (simp add: load_fetched [OF assms(2)] return_data_def assign_def parse_unzipped_def
      parse_vector_def log_def init_def)

lemma load_zipped_vector_unbound:
  assumes "g ''saws_crs'' = None" and "fetched W u r" and "zipfile_ZipFile W (content r) = None"
    and "detect_file_type p = ''vector''"
    and "zip_extractall W (content r) ''extracted_data'' f = (None, f1)"
    and "gpd_read_file W f1 (Path (full_path W p)) kw = Inr gdf"
  shows "load_data_from_url W g u True (Some p) kw (init f)
           = (Inl (NameError ''saws_crs''),
              \<lparr>fs = f1, trace = [EvGet u, EvZipFile, EvZipOpen p, EvExtractAll ''extracted_data'',
                                  EvReadFile (Path (full_path W p))]\<rparr>)"
  using assms(1,3,4,5,6)
  by (simp add: load_fetched [OF assms(2)] return_data_def assign_def load_zipped_def
      direct_parse_def extraction_fallback_def parse_extracted_def parse_vector_def
      full_path_def log_def init_def Let_def split: option.splits)

text \<open>
  C9: the module binds no name \<^verbatim>\<open>saws_crs\<close>. So in every namespace made of the module's
  bindings, each path that reaches a reprojection fails with \<^verbatim>\<open>NameError\<close>: the non-zipped
  load of a vector file once the file is read, the zipped load of a vector file once the
  archive is extracted and the file is read, and \<^verbatim>\<open>lat_long_to_point\<close> once both columns are
  found, every point is built and the frame is assembled under EPSG:4326. Neither function
  ever returns a geospatial frame.
\<close>

theorem saws_crs_never_bound:
  assumes "module_namespace g"
  shows "''saws_crs'' \<notin> set module_bound_names
       \<and> (fetched W u r \<and> detect_file_type u = ''vector''
            \<and> gpd_read_file W f (Buffer (content r)) kw = Inr gdf \<longrightarrow>
            load_data_from_url W g u False filepath kw (init f)
              = (Inl (NameError ''saws_crs''),
                 \<lparr>fs = f, trace = [EvGet u, EvReadFile (Buffer (content r))]\<rparr>))
       \<and> (fetched W u r \<and> zipfile_ZipFile W (content r) = None \<and> detect_file_type p = ''vector''
            \<and> zip_extractall W (content r) ''extracted_data'' f = (None, f1)
            \<and> gpd_read_file W f1 (Path (full_path W p)) kw = Inr gdf \<longrightarrow>
            load_data_from_url W g u True (Some p) kw (init f)
              = (Inl (NameError ''saws_crs''),
                 \<lparr>fs = f1, trace = [EvGet u, EvZipFile, EvZipOpen p, EvExtractAll ''extracted_data'',
                                     EvReadFile (Path (full_path W p))]\<rparr>))
       \<and> (getitem df long_col = Inr longs \<and> getitem df lat_col = Inr lats
            \<and> build_points W (zip longs lats) = Inr df_geo
            \<and> gpd_GeoDataFrame W df df_geo (PyStr ''EPSG:4326'') = Inr df1 \<longrightarrow>
            lat_long_to_point W g df lat_col long_col = Inl (NameError ''saws_crs''))
       \<and> (\<forall>d. fst (load_data_from_url W g u zipped filepath kw \<sigma>) \<noteq> Inr (GeoDataFrame d))
       \<and> (\<forall>d. lat_long_to_point W g df lat_col long_col \<noteq> Inr d)"
proof (intro conjI allI impI)
  have g: "g ''saws_crs'' = None"
    using assms by (rule module_namespace_saws_crs)
  show "''saws_crs'' \<notin> set module_bound_names"
    by (simp add: module_bound_names_def)
  show "load_data_from_url W g u False filepath kw (init f)
      = (Inl (NameError ''saws_crs''), \<lparr>fs = f, trace = [EvGet u, EvReadFile (Buffer (content r))]\<rparr>)"
    if "fetched W u r \<and> detect_file_type u = ''vector''
        \<and> gpd_read_file W f (Buffer (content r)) kw = Inr gdf"
    using that by (intro load_vector_unbound [of g, OF g]) auto
  show "load_data_from_url W g u True (Some p) kw (init f)
      = (Inl (NameError ''saws_crs''),
         \<lparr>fs = f1, trace = [EvGet u, EvZipFile, EvZipOpen p, EvExtractAll ''extracted_data'',
                             EvReadFile (Path (full_path W p))]\<rparr>)"
    if "fetched W u r \<and> zipfile_ZipFile W (content r) = None \<and> detect_file_type p = ''vector''
        \<and> zip_extractall W (content r) ''extracted_data'' f = (None, f1)
        \<and> gpd_read_file W f1 (Path (full_path W p)) kw = Inr gdf"
    using that by (intro load_zipped_vector_unbound [of g, OF g]) auto
  show "lat_long_to_point W g df lat_col long_col = Inl (NameError ''saws_crs'')"
    if "getitem df long_col = Inr longs \<and> getitem df lat_col = Inr lats
        \<and> build_points W (zip longs lats) = Inr df_geo
        \<and> gpd_GeoDataFrame W df df_geo (PyStr ''EPSG:4326'') = Inr df1"
    using that g by (simp add: lat_long_to_point_def)
  show "fst (load_data_from_url W g u zipped filepath kw \<sigma>) \<noteq> Inr (GeoDataFrame d)" for d
    using g by (rule load_no_frame)
  show "lat_long_to_point W g df lat_col long_col \<noteq> Inr d" for d
    using g by (rule lat_long_unbound)
qed

theorem saws_crs_never_bound_witness:
  "load_data_from_url (demo_world 200 ''PK-archive'') script_globals
       ''http://example.org/boundaries.json'' False None [] (init [])
     = (Inl (NameError ''saws_crs''),
        \<lparr>fs = [], trace = [EvGet ''http://example.org/boundaries.json'',
                            EvReadFile (Buffer ''PK-archive'')]\<rparr>)
   \<and> load_data_from_url (demo_world 200 ''PK-archive'') script_globals
       ''http://example.org/boundaries.json'' True (Some ''wells.shp'') [] (init [])
     = (Inl (NameError ''saws_crs''),
        \<lparr>fs = [''extracted_data''],
           trace = [EvGet ''http://example.org/boundaries.json'', EvZipFile, EvZipOpen ''wells.shp'',
                    EvExtractAll ''extracted_data'',
                    EvReadFile (Path ''/work/extracted_data/wells.shp'')]\<rparr>)
   \<and> lat_long_to_point (demo_world 200 ''PK-archive'') script_globals
       \<lparr>columns = [(''y'', [29, 30]), (''x'', [- 98, - 97])]\<rparr> ''y'' ''x''
     = Inl (NameError ''saws_crs'')"
proof -
  let ?W = "demo_world 200 ''PK-archive'' :: (string list, int, string) world"
  let ?u = "''http://example.org/boundaries.json''"
  let ?r = "\<lparr>status_code = 200, content = ''PK-archive'', resp_url = ?u\<rparr>"
  let ?df = "\<lparr>columns = [(''y'', [29, 30]), (''x'', [- 98, - 97 :: int])]\<rparr>"
  have f: "fetched ?W ?u ?r"
    by (simp add: demo_fetched)
  have d: "detect_file_type ?u = ''vector''" "detect_file_type ''wells.shp'' = ''vector''"
    by (simp_all add: detector_eval)
  have rd: "gpd_read_file ?W [] (Buffer (content ?r)) []
      = Inr \<lparr>table = demo_frame ''PK-archive'', geometry = [], crs = PyStr ''EPSG:4269''\<rparr>"
    by (simp add: demo_world_def demo_read_def)
  have z: "zipfile_ZipFile ?W (content ?r) = None"
    by (simp add: demo_world_def)
  have x: "zip_extractall ?W (content ?r) ''extracted_data'' [] = (None, [''extracted_data''])"
    by (simp add: demo_world_def)
  have fp: "full_path ?W ''wells.shp'' = ''/work/extracted_data/wells.shp''"
    by (simp add: full_path_def os_path_join_def demo_world_def)
  have rp: "gpd_read_file ?W [''extracted_data''] (Path (full_path ?W ''wells.shp'')) []
      = Inr \<lparr>table = demo_frame ''/work/extracted_data/wells.shp'', geometry = [],
              crs = PyStr ''EPSG:4269''\<rparr>"
    by (simp add: fp) (simp add: demo_world_def demo_read_def)
  have c: "getitem ?df ''x'' = Inr [- 98, - 97]" "getitem ?df ''y'' = Inr [29, 30]"
    by (simp_all add: getitem_def)
  have b: "build_points ?W (zip [- 98, - 97] [29, 30]) = Inr [Point (- 98) 29, Point (- 97) 30]"
    by (simp add: demo_world_def)
  have a: "gpd_GeoDataFrame ?W ?df [Point (- 98) 29, Point (- 97) 30] (PyStr ''EPSG:4326'')
      = Inr \<lparr>table = ?df, geometry = [Point (- 98) 29, Point (- 97) 30], crs = PyStr ''EPSG:4326''\<rparr>"
    by (simp add: demo_world_def)
  show ?thesis
    using saws_crs_never_bound [OF script_globals_namespace,
        where W = ?W and u = ?u and r = ?r and f = "[]" and kw = "[]" and filepath = None
          and p = "''wells.shp''" and ?f1.0 = "[''extracted_data'']" and df = ?df
          and long_col = "''x''" and lat_col = "''y''" and longs = "[- 98, - 97]"
          and lats = "[29, 30]" and df_geo = "[Point (- 98) 29, Point (- 97) 30]"]
      f d rd z x rp c b a
    by (simp add: fp)
qed

section \<open>The extraction fallback\<close>





lemma parse_extracted_frame:
  "parse_extracted W g t path kw \<sigma> =
     (fst (parse_extracted W g t path kw (init (fs \<sigma>))),
      \<sigma>\<lparr>trace := trace \<sigma> @ trace (snd (parse_extracted W g t path kw (init (fs \<sigma>))))\<rparr>)"
  by (simp add: parse_extracted_def assign_def parse_csv_def parse_excel_def parse_vector_def
      parse_raster_def log_def init_def Let_def split: sum.splits option.splits)

lemma parse_extracted_events:
  "e \<in> set (trace (snd (parse_extracted W g t path kw (init f)))) \<Longrightarrow> e \<noteq> EvRmtree d"
  by (auto simp: parse_extracted_def assign_def parse_csv_def parse_excel_def parse_vector_def
      parse_raster_def log_def init_def Let_def split: sum.splits option.splits if_splits)

lemma direct_parse_frame:
  "direct_parse W z p t kw \<sigma> =
     (fst (direct_parse W z p t kw (init (fs \<sigma>))),
      \<sigma>\<lparr>trace := trace \<sigma> @ trace (snd (direct_parse W z p t kw (init (fs \<sigma>))))\<rparr>)"
  by (simp add: direct_parse_def assign_def parse_csv_def parse_excel_def
      log_def init_def Let_def split: sum.splits option.splits)

lemma direct_parse_events:
  "e \<in> set (trace (snd (direct_parse W z p t kw (init f)))) \<Longrightarrow> e \<noteq> EvRmtree d"
  by (auto simp: direct_parse_def assign_def parse_csv_def parse_excel_def
      log_def init_def Let_def split: sum.splits option.splits if_splits)




text \<open>
  C4: for a zipped load whose fetch passes the status check, whose payload opens as an
  archive and whose direct attempt on the member raises, so that the fallback runs. When
  the extraction, the dispatch on the extracted path and \<^verbatim>\<open>shutil.rmtree\<close> raise nothing,
  the removal of the scratch directory is the last call made before the loader returns,
  the file system is the one \<^verbatim>\<open>rmtree\<close> leaves, in which (by the contract of \<^verbatim>\<open>rmtree\<close>)
  the directory does not exist, and the structure returned is the one the dispatch
  loaded. When the extraction or the dispatch raises, \<^verbatim>\<open>rmtree\<close> is never called: the load
  fails and the file system stays as the extraction left it.
\<close>

theorem scratch_directory_removed_on_success_only:
  assumes "fetched W u r" and "zipfile_ZipFile W (content r) = None"
    and "fst (direct_parse W (content r) p (detect_file_type p) kw (init f)) = Inl e0"
    and "zip_extractall W (content r) ''extracted_data'' f = (x, f1)"
    and "fst (parse_extracted W g (detect_file_type p) (full_path W p) kw (init f1)) = y"
    and "load_data_from_url W g u True (Some p) kw (init f) = (res, \<sigma>')"
  shows "(x = None \<and> (\<exists>d. y = Inr d) \<and> shutil_rmtree W ''extracted_data'' f1 = (None, f2) \<longrightarrow>
            fs \<sigma>' = f2 \<and> last (trace \<sigma>') = EvRmtree ''extracted_data''
            \<and> res = (case y of Inr (Some d) \<Rightarrow> Inr d | _ \<Rightarrow> Inl (UnboundLocalError ''data''))
            \<and> (rmtree_removes W \<longrightarrow> \<not> os_path_exists W (fs \<sigma>') ''extracted_data''))
       \<and> (x \<noteq> None \<or> (\<exists>e. y = Inl e) \<longrightarrow>
            fs \<sigma>' = f1 \<and> EvRmtree ''extracted_data'' \<notin> set (trace \<sigma>') \<and> (\<exists>e. res = Inl e))"
proof -
  let ?t = "detect_file_type p"
  let ?T = "[EvGet u, EvZipFile]"
  define dev where "dev = trace (snd (direct_parse W (content r) p ?t kw (init f)))"
  define pev where "pev = trace (snd (parse_extracted W g ?t (full_path W p) kw (init f1)))"
  have dev: "EvRmtree ''extracted_data'' \<notin> set dev"
    using direct_parse_events [of "EvRmtree ''extracted_data''" W "content r" p ?t kw f]
    by (auto simp: dev_def)
  have pev: "EvRmtree ''extracted_data'' \<notin> set pev"
    using parse_extracted_events [of "EvRmtree ''extracted_data''" W g ?t "full_path W p" kw f1]
    by (auto simp: pev_def)
  have dp: "direct_parse W (content r) p ?t kw \<lparr>fs = f, trace = ?T\<rparr>
      = (Inl e0, \<lparr>fs = f, trace = ?T @ dev\<rparr>)"
    using assms(3)
    by (subst direct_parse_frame) (simp add: dev_def)
  have pe: "parse_extracted W g ?t (os_path_abspath W (os_path_join ''extracted_data'' p)) kw
        \<lparr>fs = f1, trace = T\<rparr> = (y, \<lparr>fs = f1, trace = T @ pev\<rparr>)" for T
    using assms(5)
    by (subst parse_extracted_frame) (simp add: pev_def full_path_def)
  have load: "(res, \<sigma>') =
      return_data
        (case x of
           Some e \<Rightarrow> (Inl e, \<lparr>fs = f1, trace = ?T @ dev @ [EvExtractAll ''extracted_data'']\<rparr>)
         | None \<Rightarrow>
             (case y of
                Inl e \<Rightarrow> (Inl e, \<lparr>fs = f1, trace = ?T @ dev @ [EvExtractAll ''extracted_data''] @ pev\<rparr>)
              | Inr d \<Rightarrow>
                  (case shutil_rmtree W ''extracted_data'' f1 of
                     (Some e, f2) \<Rightarrow>
                       (Inl e, \<lparr>fs = f2, trace = ?T @ dev @ [EvExtractAll ''extracted_data''] @ pev
                                                  @ [EvRmtree ''extracted_data'']\<rparr>)
                   | (None, f2) \<Rightarrow>
                       (Inr d, \<lparr>fs = f2, trace = ?T @ dev @ [EvExtractAll ''extracted_data''] @ pev
                                                  @ [EvRmtree ''extracted_data'']\<rparr>))))"
    using assms(2,4)
    by (simp add: assms(6) [symmetric] load_fetched [OF assms(1)] load_zipped_def log_def
        init_def dp extraction_fallback_def pe Let_def
        split: option.splits sum.splits prod.splits)
  show ?thesis
  proof (intro conjI impI)
    assume ok: "x = None \<and> (\<exists>d. y = Inr d) \<and> shutil_rmtree W ''extracted_data'' f1 = (None, f2)"
    then obtain d where y: "y = Inr d" by blast
    from load ok y have res: "(res, \<sigma>') = return_data (Inr d,
        \<lparr>fs = f2, trace = ?T @ dev @ [EvExtractAll ''extracted_data''] @ pev
                             @ [EvRmtree ''extracted_data'']\<rparr>)"
      by simp
    then show "fs \<sigma>' = f2"
      by (auto simp: return_data_def split: option.splits)
    from res show "last (trace \<sigma>') = EvRmtree ''extracted_data''"
      by (auto simp: return_data_def split: option.splits)
    from res y show "res = (case y of Inr (Some d) \<Rightarrow> Inr d | _ \<Rightarrow> Inl (UnboundLocalError ''data''))"
      by (auto simp: return_data_def split: option.splits)
    from res ok show "\<not> os_path_exists W (fs \<sigma>') ''extracted_data''" if "rmtree_removes W"
      using that by (auto simp: return_data_def rmtree_removes_def split: option.splits)
  next
    assume bad: "x \<noteq> None \<or> (\<exists>e. y = Inl e)"
    then have "\<exists>e tr. (res, \<sigma>') = (Inl e, \<lparr>fs = f1, trace = tr\<rparr>)
        \<and> EvRmtree ''extracted_data'' \<notin> set tr"
      using load dev pev
      by (cases x; cases y) (auto simp: return_data_def)
    then show "fs \<sigma>' = f1" and "EvRmtree ''extracted_data'' \<notin> set (trace \<sigma>')"
      and "\<exists>e. res = Inl e"
      by auto
  qed
qed

theorem scratch_directory_removed_on_success_only_witness:
  "load_data_from_url (demo_world 200 ''PK-archive'') script_globals
       ''http://example.org/ions.zip'' True (Some ''dem.tif'') [] (init [''cache''])
     = (Inr (DatasetReader ''/work/extracted_data/dem.tif''),
        \<lparr>fs = [''cache''],
           trace = [EvGet ''http://example.org/ions.zip'', EvZipFile, EvZipOpen ''dem.tif'',
                    EvExtractAll ''extracted_data'',
                    EvRasterioOpen (Path ''/work/extracted_data/dem.tif''),
                    EvRmtree ''extracted_data'']\<rparr>)
   \<and> \<not> os_path_exists (demo_world 200 ''PK-archive'') [''cache''] ''extracted_data''
   \<and> fs (snd (load_data_from_url (demo_world 200 ''PK-archive'') script_globals
       ''http://example.org/ions.zip'' True (Some ''wells.shp'') [] (init [''cache''])))
     = [''extracted_data'', ''cache'']"
proof -
  let ?W = "demo_world 200 ''PK-archive'' :: (string list, int, string) world"
  let ?u = "''http://example.org/ions.zip''"
  let ?r = "\<lparr>status_code = 200, content = ''PK-archive'', resp_url = ?u\<rparr>"
  let ?tr = "[EvGet ?u, EvZipFile, EvZipOpen ''dem.tif'', EvExtractAll ''extracted_data'',
              EvRasterioOpen (Path ''/work/extracted_data/dem.tif''), EvRmtree ''extracted_data'']"
  let ?f1 = "[''extracted_data'', ''cache'']"
  have f: "fetched ?W ?u ?r"
    by (simp add: demo_fetched)
  have z: "zipfile_ZipFile ?W (content ?r) = None"
    by (simp add: demo_world_def)
  have d1: "fst (direct_parse ?W (content ?r) ''dem.tif'' (detect_file_type ''dem.tif'') []
        (init [''cache''])) = Inl (NotImplementedError ''Shapefiles and rasters require extraction.'')"
    by (simp add: detect_examples direct_parse_def log_def init_def demo_world_def demo_members_def)
  have d2: "fst (direct_parse ?W (content ?r) ''wells.shp'' (detect_file_type ''wells.shp'') []
        (init [''cache''])) = Inl (NotImplementedError ''Shapefiles and rasters require extraction.'')"
    by (simp add: detect_examples direct_parse_def log_def init_def demo_world_def demo_members_def)
  have ex: "zip_extractall ?W (content ?r) ''extracted_data'' [''cache''] = (None, ?f1)"
    by (simp add: demo_world_def)
  have p1: "fst (parse_extracted ?W script_globals (detect_file_type ''dem.tif'')
        (full_path ?W ''dem.tif'') [] (init ?f1))
      = Inr (Some (DatasetReader ''/work/extracted_data/dem.tif''))"
    by (simp add: detect_examples parse_extracted_def assign_def parse_raster_def log_def
        init_def demo_defs)
  have p2: "fst (parse_extracted ?W script_globals (detect_file_type ''wells.shp'')
        (full_path ?W ''wells.shp'') [] (init ?f1)) = Inl (NameError ''saws_crs'')"
    by (simp add: detect_examples parse_extracted_def assign_def parse_vector_def log_def
        init_def demo_defs)
  have rm: "shutil_rmtree ?W ''extracted_data'' ?f1 = (None, [''cache''])"
    by (simp add: demo_world_def)
  have con: "rmtree_removes ?W"
    by (auto simp: rmtree_removes_def demo_world_def split: if_splits)
  have l1: "load_data_from_url ?W script_globals ?u True (Some ''dem.tif'') [] (init [''cache''])
      = (fst (load_data_from_url ?W script_globals ?u True (Some ''dem.tif'') [] (init [''cache''])),
         snd (load_data_from_url ?W script_globals ?u True (Some ''dem.tif'') [] (init [''cache''])))"
    by simp
  have l2: "load_data_from_url ?W script_globals ?u True (Some ''wells.shp'') [] (init [''cache''])
      = (fst (load_data_from_url ?W script_globals ?u True (Some ''wells.shp'') [] (init [''cache''])),
         snd (load_data_from_url ?W script_globals ?u True (Some ''wells.shp'') [] (init [''cache''])))"
    by simp
  have a: "fs (snd (load_data_from_url ?W script_globals ?u True (Some ''wells.shp'') []
        (init [''cache'']))) = ?f1"
    using scratch_directory_removed_on_success_only [OF f z d2 ex p2 l2] by simp
  have b: "\<not> os_path_exists ?W [''cache''] ''extracted_data''"
    using scratch_directory_removed_on_success_only [OF f z d1 ex p1 l1, where ?f2.0 = "[''cache'']"]
      rm con
    by auto
  have c: "load_data_from_url ?W script_globals ?u True (Some ''dem.tif'') [] (init [''cache''])
      = (Inr (DatasetReader ''/work/extracted_data/dem.tif''), \<lparr>fs = [''cache''], trace = ?tr\<rparr>)"
    by (simp add: loader_defs demo_defs detect_examples Let_def)
  from a b c show ?thesis by simp
qed

end
